theory Spec2Isabelle
  imports Main "HOL-Library.Word"
begin

unbundle bit_operations_syntax

section \<open>The lights module of liblight/lights.c\<close>

text \<open>
  The module translates light-state requests into writes to two sysfs control files.
  C's \<open>int\<close> and \<open>unsigned int\<close> are 32-bit words; \<open>sint\<close> reads an \<open>int\<close>.
  The kernel is a parameter of every operation that reaches it: what \<open>open(2)\<close> and
  \<open>write(2)\<close> answer. The process state (the statics of the file, \<open>errno\<close>, and what
  the control files have received so far) is passed explicitly and returned updated.
  The mutex \<open>g_lock\<close> has no effect on a run of one thread and is not part of the state.
\<close>

subsection \<open>Data\<close>

text \<open>
  Modelled from the spec: \<open>struct light_state_t\<close> is declared in hardware/lights.h, which
  is not among the sources. The fields are those the code reads and the spec's data model
  lists: a 32-bit ARGB colour, the flash mode and the two flash durations.
\<close>

record light_state_t =
  color :: "32 word"
  flashMode :: "32 word"
  flashOnMS :: "32 word"
  flashOffMS :: "32 word"

text \<open>
  Modelled from the spec: the flash modes of hardware/lights.h. The code tells
  \<open>LIGHT_FLASH_TIMED\<close> from every other value of the mode; \<open>LIGHT_FLASH_NONE\<close> shares
  the \<open>default\<close> branch.
\<close>

definition LIGHT_FLASH_NONE :: "32 word" where
  "LIGHT_FLASH_NONE = 0"

definition LIGHT_FLASH_TIMED :: "32 word" where
  "LIGHT_FLASH_TIMED = 1"

text \<open>
  Modelled from the spec: the three logical light names of hardware/lights.h and the
  invalid-argument code of errno.h.
\<close>

definition LIGHT_ID_BACKLIGHT :: string where
  "LIGHT_ID_BACKLIGHT = ''backlight''"

definition LIGHT_ID_BATTERY :: string where
  "LIGHT_ID_BATTERY = ''battery''"

definition LIGHT_ID_NOTIFICATIONS :: string where
  "LIGHT_ID_NOTIFICATIONS = ''notifications''"

definition EINVAL :: "32 word" where
  "EINVAL = 22"

definition LCD_FILE :: string where
  "LCD_FILE = ''/sys/class/leds/lcd-backlight/brightness''"

definition RGB_CONTROL_FILE :: string where
  "RGB_CONTROL_FILE = ''/sys/class/leds/rgb/control''"

text \<open>What the kernel answers: \<open>open\<close> gives a descriptor or fails with an error code;
  \<open>write\<close> accepts a number of bytes of the buffer or fails with an error code.\<close>

datatype open_result = Opened | Open_failed "32 word"

datatype write_result = Written nat | Write_failed "32 word"

record kernel =
  sys_open :: "string \<Rightarrow> open_result"
  sys_write :: "string \<Rightarrow> string \<Rightarrow> write_result"

text \<open>The process state. \<open>written\<close> lists, oldest first, the bytes each control file
  has accepted; \<open>logged\<close> lists the error lines given to \<open>ALOGE\<close>.\<close>

record world =
  g_init :: bool
  g_notification :: light_state_t
  g_battery :: light_state_t
  write_int_already_warned :: bool
  write_str_already_warned :: bool
  errno :: "32 word"
  logged :: "string list"
  written :: "(string \<times> string) list"

subsection \<open>sprintf\<close>

definition digit_char :: "nat \<Rightarrow> char" where
  "digit_char d = ''0123456789abcdef'' ! d"

fun dec_nat :: "nat \<Rightarrow> string" where
  "dec_nat n = (if n < 10 then [digit_char n] else dec_nat (n div 10) @ [digit_char (n mod 10)])"

fun hex_nat :: "nat \<Rightarrow> string" where
  "hex_nat n = (if n < 16 then [digit_char n] else hex_nat (n div 16) @ [digit_char (n mod 16)])"

declare dec_nat.simps [simp del]
declare hex_nat.simps [simp del]

text \<open>\<open>%d\<close> of an \<open>int\<close>, \<open>%6x\<close> of an \<open>unsigned int\<close> (lower-case digits, padded with
  blanks on the left to six columns), and the line feed.\<close>

definition fmt_d :: "32 word \<Rightarrow> string" where
  "fmt_d v = (if sint v < 0 then CHR ''-'' # dec_nat (nat (- sint v)) else dec_nat (nat (sint v)))"

definition fmt_6x :: "32 word \<Rightarrow> string" where
  "fmt_6x v = (let h = hex_nat (unat v) in replicate (6 - length h) CHR '' '' @ h)"

definition LF :: string where
  "LF = [CHR 0x0A]"

subsection \<open>Writing to a control file\<close>

text \<open>
  Modelled from the spec: \<open>ALOGE\<close> comes from cutils/log.h, which is not among the
  sources. The model appends the formatted line to \<open>logged\<close> and leaves \<open>errno\<close> as
  \<open>open\<close> set it. The debug lines of \<open>ALOGD\<close> are not recorded, and \<open>close\<close> is taken
  to succeed and to leave \<open>errno\<close> alone. Both buffers are large enough for every line
  the module prints.
\<close>

definition write_int :: "kernel \<Rightarrow> string \<Rightarrow> 32 word \<Rightarrow> world \<Rightarrow> 32 word \<times> world" where
  "write_int k path v w =
     (case sys_open k path of
        Opened \<Rightarrow>
          (let buffer = fmt_d v @ LF in
           case sys_write k path buffer of
             Written amt \<Rightarrow> (0, w\<lparr>written := written w @ [(path, take amt buffer)]\<rparr>)
           | Write_failed e \<Rightarrow> (- e, w\<lparr>errno := e\<rparr>))
      | Open_failed e \<Rightarrow>
          (let w1 = w\<lparr>errno := e\<rparr>;
               w2 = (if \<not> write_int_already_warned w1
                     then w1\<lparr>logged := logged w1 @ [''write_int failed to open '' @ path @ LF],
                             write_int_already_warned := True\<rparr>
                     else w1)
           in (- errno w2, w2)))"

definition write_str :: "kernel \<Rightarrow> string \<Rightarrow> string \<Rightarrow> world \<Rightarrow> 32 word \<times> world" where
  "write_str k path v w =
     (case sys_open k path of
        Opened \<Rightarrow>
          (let buffer = v @ LF in
           case sys_write k path buffer of
             Written amt \<Rightarrow> (0, w\<lparr>written := written w @ [(path, take amt buffer)]\<rparr>)
           | Write_failed e \<Rightarrow> (- e, w\<lparr>errno := e\<rparr>))
      | Open_failed e \<Rightarrow>
          (let w1 = w\<lparr>errno := e\<rparr>;
               w2 = (if \<not> write_str_already_warned w1
                     then w1\<lparr>logged := logged w1 @ [''write_str failed to open '' @ path @ LF],
                             write_str_already_warned := True\<rparr>
                     else w1)
           in (- errno w2, w2)))"

subsection \<open>The setters\<close>

definition is_lit :: "light_state_t \<Rightarrow> 32 word" where
  "is_lit state = color state AND 0x00ffffff"

text \<open>\<open>color\<close> is an \<open>int\<close> below \<open>2 ^ 24\<close>, so \<open>>>\<close> on it is the logical shift.\<close>

definition rgb_to_brightness :: "light_state_t \<Rightarrow> 32 word" where
  "rgb_to_brightness state =
     (let color = color state AND 0x00ffffff in
      drop_bit 8 (77 * (drop_bit 16 color AND 0x00ff)
                  + 150 * (drop_bit 8 color AND 0x00ff)
                  + 29 * (color AND 0x00ff)))"

definition set_light_backlight :: "kernel \<Rightarrow> light_state_t \<Rightarrow> world \<Rightarrow> 32 word \<times> world" where
  "set_light_backlight k state w =
     (let brightness = rgb_to_brightness state in
      write_int k LCD_FILE brightness w)"

definition set_speaker_light_locked :: "kernel \<Rightarrow> light_state_t \<Rightarrow> world \<Rightarrow> 32 word \<times> world" where
  "set_speaker_light_locked k state w =
     (let (onMS, offMS, ramp) =
            (if flashMode state = LIGHT_FLASH_TIMED
             then (flashOnMS state, flashOffMS state, 300)
             else if flashMode state = LIGHT_FLASH_NONE
             then (0, 0, 0)
             else (0, 0, 0));
          colorRGB = (if 0xFFFFFF AND color state \<noteq> 0 then 0xFFFFFF else 0 :: 32 word);
          blink_pattern = fmt_6x colorRGB @ '' '' @ fmt_d onMS @ '' '' @ fmt_d offMS
                          @ '' '' @ fmt_d ramp @ '' '' @ fmt_d ramp;
          w1 = snd (write_str k RGB_CONTROL_FILE blink_pattern w)
      in (0, w1))"

definition handle_speaker_battery_locked :: "kernel \<Rightarrow> world \<Rightarrow> world" where
  "handle_speaker_battery_locked k w =
     (if is_lit (g_notification w) \<noteq> 0
      then snd (set_speaker_light_locked k (g_notification w) w)
      else if is_lit (g_battery w) \<noteq> 0
      then snd (write_str k RGB_CONTROL_FILE ''FFFFFF 1 0 0 0'' w)
      else snd (write_str k RGB_CONTROL_FILE ''000000 0 0 0 0'' w))"

definition set_light_notifications :: "kernel \<Rightarrow> light_state_t \<Rightarrow> world \<Rightarrow> 32 word \<times> world" where
  "set_light_notifications k state w =
     (let w1 = w\<lparr>g_notification := state\<rparr>;
          w2 = handle_speaker_battery_locked k w1
      in (0, w2))"

definition set_light_battery :: "kernel \<Rightarrow> light_state_t \<Rightarrow> world \<Rightarrow> 32 word \<times> world" where
  "set_light_battery k state w =
     (let w1 = w\<lparr>g_battery := state\<rparr>;
          w2 = handle_speaker_battery_locked k w1
      in (0, w2))"

subsection \<open>Opening a device\<close>

text \<open>The functions a device record can point to, and the call through \<open>set_light\<close>.\<close>

datatype fn = Set_light_backlight | Set_light_battery | Set_light_notifications | Close_lights

text \<open>
  Modelled from the spec: \<open>struct light_device_t\<close> and \<open>HARDWARE_DEVICE_TAG\<close> come
  from hardware/lights.h and hardware/hardware.h, which are not among the sources. The
  record has the fields \<open>open_lights\<close> assigns; the module is an address.
\<close>

record light_device_t =
  common_tag :: "32 word"
  common_version :: "32 word"
  common_module :: nat
  common_close :: "fn option"
  set_light :: "fn option"

definition HARDWARE_DEVICE_TAG :: "32 word" where
  "HARDWARE_DEVICE_TAG = 0x48574454"

definition call_set_light :: "fn \<Rightarrow> kernel \<Rightarrow> light_state_t \<Rightarrow> world \<Rightarrow> (32 word \<times> world) option" where
  "call_set_light f k state w =
     (case f of
        Set_light_backlight \<Rightarrow> Some (set_light_backlight k state w)
      | Set_light_battery \<Rightarrow> Some (set_light_battery k state w)
      | Set_light_notifications \<Rightarrow> Some (set_light_notifications k state w)
      | Close_lights \<Rightarrow> None)"

text \<open>
  \<open>open_lights malloc_ok module name device w\<close>: \<open>device\<close> is what the caller's
  \<open>*device\<close> holds before the call, and the result gives the return value, \<open>*device\<close>
  after the call and the state. The code passes the result of \<open>malloc\<close> to \<open>memset\<close>
  unchecked: when the allocation fails the process faults, which is \<open>None\<close>.
\<close>

definition open_lights ::
  "bool \<Rightarrow> nat \<Rightarrow> string \<Rightarrow> light_device_t option \<Rightarrow> world
     \<Rightarrow> (32 word \<times> light_device_t option \<times> world) option" where
  "open_lights malloc_ok module name device w =
     (case (if LIGHT_ID_BACKLIGHT = name then Some Set_light_backlight
            else if LIGHT_ID_BATTERY = name then Some Set_light_battery
            else if LIGHT_ID_NOTIFICATIONS = name then Some Set_light_notifications
            else None) of
        None \<Rightarrow> Some (- EINVAL, device, w)
      | Some set_light_fn \<Rightarrow>
          (let w1 = w\<lparr>g_init := True\<rparr> in
           if \<not> malloc_ok then None
           else
             (let dev = \<lparr>common_tag = 0, common_version = 0, common_module = 0,
                         common_close = None, set_light = None\<rparr>;
                  dev = dev\<lparr>common_tag := HARDWARE_DEVICE_TAG\<rparr>;
                  dev = dev\<lparr>common_version := 0\<rparr>;
                  dev = dev\<lparr>common_module := module\<rparr>;
                  dev = dev\<lparr>common_close := Some Close_lights\<rparr>;
                  dev = dev\<lparr>set_light := Some set_light_fn\<rparr>
              in Some (0, Some dev, w1))))"

subsection \<open>Concrete inputs\<close>

text \<open>A kernel that opens every path and accepts every byte, and one whose \<open>open\<close>
  fails with error code 2 on every path.\<close>

definition accepting_kernel :: kernel where
  "accepting_kernel = \<lparr>sys_open = (\<lambda>path. Opened), sys_write = (\<lambda>path buffer. Written (length buffer))\<rparr>"

definition refusing_kernel :: kernel where
  "refusing_kernel = \<lparr>sys_open = (\<lambda>path. Open_failed 2), sys_write = (\<lambda>path buffer. Write_failed 9)\<rparr>"

text \<open>The statics as the loader leaves them, and some light states.\<close>

definition light_off :: light_state_t where
  "light_off = \<lparr>color = 0, flashMode = LIGHT_FLASH_NONE, flashOnMS = 0, flashOffMS = 0\<rparr>"

definition initial_world :: world where
  "initial_world = \<lparr>g_init = False, g_notification = light_off, g_battery = light_off,
     write_int_already_warned = False, write_str_already_warned = False,
     errno = 0, logged = [], written = []\<rparr>"

definition pure_red :: light_state_t where
  "pure_red = \<lparr>color = 0x00FF0000, flashMode = LIGHT_FLASH_NONE, flashOnMS = 0, flashOffMS = 0\<rparr>"

definition opaque_red :: light_state_t where
  "opaque_red = \<lparr>color = 0xFFFF0000, flashMode = LIGHT_FLASH_NONE, flashOnMS = 0, flashOffMS = 0\<rparr>"

definition opaque_black :: light_state_t where
  "opaque_black = \<lparr>color = 0xFF000000, flashMode = LIGHT_FLASH_NONE, flashOnMS = 0, flashOffMS = 0\<rparr>"

definition blinking_green :: light_state_t where
  "blinking_green = \<lparr>color = 0xFF00FF00, flashMode = LIGHT_FLASH_TIMED, flashOnMS = 500, flashOffMS = 2000\<rparr>"

section \<open>Properties\<close>

subsection \<open>The formatted numbers\<close>

lemma fmt_6x_white: "fmt_6x 0xFFFFFF = ''ffffff''"
  by (simp add: fmt_6x_def hex_nat.simps digit_char_def)

lemma fmt_d_0: "fmt_d 0 = ''0''"
  by (simp add: fmt_d_def dec_nat.simps digit_char_def)

lemma fmt_d_300: "fmt_d 300 = ''300''"
  by (simp add: fmt_d_def dec_nat.simps digit_char_def)

lemma fmt_d_examples:
  "fmt_d 500 = ''500''" "fmt_d 2000 = ''2000''" "fmt_d 255 = ''255''" "fmt_d 76 = ''76''"
  by (simp_all add: fmt_d_def dec_nat.simps digit_char_def)

lemma signed_take_bit_small:
  "(0::int) \<le> i \<Longrightarrow> i \<le> 255 \<Longrightarrow> signed_take_bit (31::nat) i = i"
  by (simp add: signed_take_bit_int_eq_self_iff)

lemma fmt_d_small:
  assumes "unat v \<le> 255"
  shows "fmt_d v = dec_nat (unat v)"
proof -
  have "int (unat v) \<le> int 255"
    using assms by (simp only: of_nat_le_iff)
  then have "uint v \<le> 255"
    by simp
  then have "signed_take_bit (31::nat) (uint v) = uint v"
    by (simp add: signed_take_bit_small)
  then have "sint v = uint v"
    by (simp add: sint_uint)
  then show ?thesis
    by (simp add: fmt_d_def)
qed

subsection \<open>What a write leaves behind\<close>

lemma written_write_str:
  "written (snd (write_str k path v w)) =
     written w @ (case sys_open k path of
                    Opened \<Rightarrow> (case sys_write k path (v @ LF) of
                                 Written amt \<Rightarrow> [(path, take amt (v @ LF))]
                               | Write_failed e \<Rightarrow> [])
                  | Open_failed e \<Rightarrow> [])"
  by (simp add: write_str_def Let_def split: open_result.split write_result.split)

lemma write_str_accepted:
  assumes "sys_open k path = Opened"
    and "sys_write k path (v @ LF) = Written (length (v @ LF))"
  shows "write_str k path v w = (0, w\<lparr>written := written w @ [(path, v @ LF)]\<rparr>)"
  using assms by (simp add: write_str_def Let_def)

lemma write_int_accepted:
  assumes "sys_open k path = Opened"
    and "sys_write k path (fmt_d v @ LF) = Written (length (fmt_d v @ LF))"
  shows "write_int k path v w = (0, w\<lparr>written := written w @ [(path, fmt_d v @ LF)]\<rparr>)"
  using assms by (simp add: write_int_def Let_def)

lemma write_str_open_failed:
  assumes "sys_open k path = Open_failed e"
  shows "fst (write_str k path v w) = - e"
    and "written (snd (write_str k path v w)) = written w"
    and "errno (snd (write_str k path v w)) = e"
  using assms by (simp_all add: write_str_def Let_def)

lemma write_int_open_failed:
  assumes "sys_open k path = Open_failed e"
  shows "fst (write_int k path v w) = - e"
    and "written (snd (write_int k path v w)) = written w"
    and "errno (snd (write_int k path v w)) = e"
  using assms by (simp_all add: write_int_def Let_def)

lemma write_str_store:
  "snd (write_str k path v (w\<lparr>g_battery := b\<rparr>)) = (snd (write_str k path v w))\<lparr>g_battery := b\<rparr>"
  "snd (write_str k path v (w\<lparr>g_notification := n\<rparr>)) = (snd (write_str k path v w))\<lparr>g_notification := n\<rparr>"
  by (simp_all add: write_str_def Let_def split: open_result.split write_result.split)

lemma take_lower_case_line:
  "take amt (CHR ''f'' # rest) \<noteq> CHR ''F'' # rest'"
  by (cases amt) simp_all

lemma lower_case_line_appended:
  assumes "written w' = written w @ ws"
    and "w' = snd (write_str k path (CHR ''f'' # rest) w)"
  shows "(path', CHR ''F'' # rest') \<notin> set ws"
proof (cases "sys_open k path")
  case Opened
  show ?thesis
  proof (cases "sys_write k path ((CHR ''f'' # rest) @ LF)")
    case (Written amt)
    with Opened assms have "ws = [(path, take amt (CHR ''f'' # rest @ LF))]"
      by (simp add: written_write_str)
    then show ?thesis
      by (simp add: take_lower_case_line [THEN not_sym])
  next
    case (Write_failed e)
    with Opened assms have "ws = []"
      by (simp add: written_write_str)
    then show ?thesis
      by simp
  qed
next
  case (Open_failed e)
  with assms have "ws = []"
    by (simp add: written_write_str)
  then show ?thesis
    by simp
qed

subsection \<open>The concrete inputs, evaluated\<close>

lemma accepting_kernel_simps:
  "sys_open accepting_kernel path = Opened"
  "sys_write accepting_kernel path buffer = Written (length buffer)"
  by (simp_all add: accepting_kernel_def)

lemma refusing_kernel_simps:
  "sys_open refusing_kernel path = Open_failed 2"
  by (simp add: refusing_kernel_def)

lemma initial_world_simps:
  "written initial_world = []"
  "g_notification initial_world = light_off"
  "g_battery initial_world = light_off"
  "is_lit light_off = 0"
  by (simp_all add: initial_world_def light_off_def is_lit_def)

lemma blinking_green_simps:
  "is_lit blinking_green \<noteq> 0"
  "flashMode blinking_green = LIGHT_FLASH_TIMED"
  "flashOnMS blinking_green = 500"
  "flashOffMS blinking_green = 2000"
  by (simp_all add: blinking_green_def is_lit_def LIGHT_FLASH_TIMED_def)

subsection \<open>Arbitration between notification and battery\<close>

lemma set_speaker_light_locked_lit:
  assumes "is_lit state \<noteq> 0"
  shows "snd (set_speaker_light_locked k state w) =
     snd (write_str k RGB_CONTROL_FILE
           (if flashMode state = LIGHT_FLASH_TIMED
            then ''ffffff '' @ fmt_d (flashOnMS state) @ '' '' @ fmt_d (flashOffMS state) @ '' 300 300''
            else ''ffffff 0 0 0 0'') w)"
  using assms
  by (simp add: set_speaker_light_locked_def is_lit_def fmt_6x_white fmt_d_0 fmt_d_300 and.commute)

lemma handle_speaker_battery_locked_lit:
  assumes "is_lit (g_notification w) \<noteq> 0"
  shows "handle_speaker_battery_locked k w =
     snd (write_str k RGB_CONTROL_FILE
           (if flashMode (g_notification w) = LIGHT_FLASH_TIMED
            then ''ffffff '' @ fmt_d (flashOnMS (g_notification w)) @ '' ''
                 @ fmt_d (flashOffMS (g_notification w)) @ '' 300 300''
            else ''ffffff 0 0 0 0'') w)"
  using assms by (simp add: handle_speaker_battery_locked_def set_speaker_light_locked_lit)

lemma handle_speaker_battery_locked_unlit:
  assumes "is_lit (g_notification w) = 0"
  shows "handle_speaker_battery_locked k w =
     snd (write_str k RGB_CONTROL_FILE
           (if is_lit (g_battery w) \<noteq> 0 then ''FFFFFF 1 0 0 0'' else ''000000 0 0 0 0'') w)"
  using assms by (simp add: handle_speaker_battery_locked_def)

lemma lit_notification_hides_battery:
  assumes "is_lit (g_notification w) \<noteq> 0"
  shows "written (handle_speaker_battery_locked k (w\<lparr>g_battery := b\<rparr>))
           = written (handle_speaker_battery_locked k w)"
proof -
  have lit': "is_lit (g_notification (w\<lparr>g_battery := b\<rparr>)) \<noteq> 0"
    using assms by simp
  show ?thesis
    by (simp add: handle_speaker_battery_locked_lit [OF assms]
        handle_speaker_battery_locked_lit [OF lit'] written_write_str
        split: open_result.split write_result.split)
qed

lemma lit_notification_never_battery_line:
  assumes "is_lit (g_notification w) \<noteq> 0"
    and ws: "written (handle_speaker_battery_locked k w) = written w @ ws"
  shows "(RGB_CONTROL_FILE, ''FFFFFF 1 0 0 0'' @ LF) \<notin> set ws"
proof (cases "flashMode (g_notification w) = LIGHT_FLASH_TIMED")
  case True
  then have "handle_speaker_battery_locked k w =
      snd (write_str k RGB_CONTROL_FILE (CHR ''f'' # ''fffff '' @ fmt_d (flashOnMS (g_notification w))
           @ '' '' @ fmt_d (flashOffMS (g_notification w)) @ '' 300 300'') w)"
    by (simp add: handle_speaker_battery_locked_lit [OF assms(1)])
  from lower_case_line_appended [OF ws this] show ?thesis
    by simp
next
  case False
  then have "handle_speaker_battery_locked k w =
      snd (write_str k RGB_CONTROL_FILE (CHR ''f'' # ''fffff 0 0 0 0'') w)"
    by (simp add: handle_speaker_battery_locked_lit [OF assms(1)])
  from lower_case_line_appended [OF ws this] show ?thesis
    by simp
qed

text \<open>
  C1. Whenever the stored notification is lit (a non-zero bit among the low 24 bits of its
  colour), then for every battery snapshot, lit or not: the arbitration routine does what
  \<open>set_speaker_light_locked\<close> does with the notification state, which is the call of
  \<open>write_str\<close> on the RGB control path with the line derived from the notification
  (\<open>ffffff onMS offMS 300 300\<close> for \<open>LIGHT_FLASH_TIMED\<close> with the durations of the
  notification, \<open>ffffff 0 0 0 0\<close> for every other mode); when the kernel opens the file
  and takes the whole buffer, the file receives exactly that line and a line feed; the
  line is not the battery line \<open>FFFFFF 1 0 0 0\<close>, the bytes received are the same as
  with any other battery snapshot, and the battery line is never among the bytes the call
  adds, whatever the kernel answers.
\<close>

theorem notification_priority:
  assumes "is_lit (g_notification w) \<noteq> 0"
    and "pattern = (if flashMode (g_notification w) = LIGHT_FLASH_TIMED
                    then ''ffffff '' @ fmt_d (flashOnMS (g_notification w)) @ '' ''
                         @ fmt_d (flashOffMS (g_notification w)) @ '' 300 300''
                    else ''ffffff 0 0 0 0'')"
  shows "handle_speaker_battery_locked k w = snd (set_speaker_light_locked k (g_notification w) w)
    \<and> handle_speaker_battery_locked k (w\<lparr>g_battery := b\<rparr>)
        = (snd (write_str k RGB_CONTROL_FILE pattern w))\<lparr>g_battery := b\<rparr>
    \<and> (sys_open k RGB_CONTROL_FILE = Opened
         \<and> sys_write k RGB_CONTROL_FILE (pattern @ LF) = Written (length (pattern @ LF))
       \<longrightarrow> written (handle_speaker_battery_locked k (w\<lparr>g_battery := b\<rparr>))
           = written w @ [(RGB_CONTROL_FILE, pattern @ LF)])
    \<and> pattern \<noteq> ''FFFFFF 1 0 0 0''
    \<and> written (handle_speaker_battery_locked k (w\<lparr>g_battery := b\<rparr>))
        = written (handle_speaker_battery_locked k w)
    \<and> (\<forall>ws. written (handle_speaker_battery_locked k (w\<lparr>g_battery := b\<rparr>)) = written w @ ws
           \<longrightarrow> (RGB_CONTROL_FILE, ''FFFFFF 1 0 0 0'' @ LF) \<notin> set ws)"
proof -
  have lit': "is_lit (g_notification (w\<lparr>g_battery := b\<rparr>)) \<noteq> 0"
    using assms(1) by simp
  have speaker: "handle_speaker_battery_locked k w = snd (set_speaker_light_locked k (g_notification w) w)"
    using assms(1) by (simp add: handle_speaker_battery_locked_def)
  have call: "handle_speaker_battery_locked k (w\<lparr>g_battery := b\<rparr>)
      = (snd (write_str k RGB_CONTROL_FILE pattern w))\<lparr>g_battery := b\<rparr>"
    unfolding assms(2)
    by (simp add: handle_speaker_battery_locked_lit [OF lit'] write_str_store)
  have accepted: "sys_open k RGB_CONTROL_FILE = Opened
         \<and> sys_write k RGB_CONTROL_FILE (pattern @ LF) = Written (length (pattern @ LF))
       \<longrightarrow> written (handle_speaker_battery_locked k (w\<lparr>g_battery := b\<rparr>))
           = written w @ [(RGB_CONTROL_FILE, pattern @ LF)]"
    by (simp add: call write_str_accepted)
  have other: "pattern \<noteq> ''FFFFFF 1 0 0 0''"
    by (simp add: assms(2))
  have never: "(RGB_CONTROL_FILE, ''FFFFFF 1 0 0 0'' @ LF) \<notin> set ws"
    if "written (handle_speaker_battery_locked k (w\<lparr>g_battery := b\<rparr>)) = written w @ ws" for ws
  proof -
    from that have "written (handle_speaker_battery_locked k (w\<lparr>g_battery := b\<rparr>))
        = written (w\<lparr>g_battery := b\<rparr>) @ ws"
      by simp
    with lit' show ?thesis
      by (rule lit_notification_never_battery_line)
  qed
  from speaker call accepted other lit_notification_hides_battery [OF assms(1), of k b] never
  show ?thesis
    by blast
qed

theorem notification_priority_witness:
  "is_lit blinking_green \<noteq> 0 \<and> is_lit opaque_red \<noteq> 0
   \<and> written (handle_speaker_battery_locked accepting_kernel
         (initial_world\<lparr>g_notification := blinking_green, g_battery := opaque_red\<rparr>))
       = [(RGB_CONTROL_FILE, ''ffffff 500 2000 300 300'' @ LF)]
   \<and> written (handle_speaker_battery_locked accepting_kernel
         (initial_world\<lparr>g_notification := blinking_green, g_battery := light_off\<rparr>))
       = [(RGB_CONTROL_FILE, ''ffffff 500 2000 300 300'' @ LF)]
   \<and> ''ffffff 500 2000 300 300'' \<noteq> ''FFFFFF 1 0 0 0''"
proof -
  let ?w = "initial_world\<lparr>g_notification := blinking_green\<rparr>"
  have lit: "is_lit (g_notification ?w) \<noteq> 0"
    by (simp add: blinking_green_simps)
  have red: "is_lit opaque_red \<noteq> 0"
    by (simp add: is_lit_def opaque_red_def)
  note run = notification_priority [OF lit refl, of accepting_kernel, THEN conjunct2, THEN conjunct2]
  from run [of opaque_red, THEN conjunct1] run [of light_off, THEN conjunct1]
    run [of opaque_red, THEN conjunct2, THEN conjunct1] red
  show ?thesis
    by (simp add: blinking_green_simps fmt_d_examples accepting_kernel_simps initial_world_simps)
qed

text \<open>
  C5. For a lit notification the colour collapses to full white, printed \<open>ffffff\<close>, and
  the arbitration routine calls \<open>write_str\<close> on the RGB control path with the line
  \<open>ffffff onMS offMS 300 300\<close> when the flash mode is \<open>LIGHT_FLASH_TIMED\<close> (the two
  durations being those of the state) and \<open>ffffff 0 0 0 0\<close> for every other mode. When
  the kernel opens the file and takes the whole buffer, the file receives that line and a
  line feed, and nothing else of the state changes.
\<close>

theorem notification_blink_pattern:
  assumes "is_lit (g_notification w) \<noteq> 0"
    and "pattern = (if flashMode (g_notification w) = LIGHT_FLASH_TIMED
                    then ''ffffff '' @ fmt_d (flashOnMS (g_notification w)) @ '' ''
                         @ fmt_d (flashOffMS (g_notification w)) @ '' 300 300''
                    else ''ffffff 0 0 0 0'')"
  shows "handle_speaker_battery_locked k w = snd (write_str k RGB_CONTROL_FILE pattern w)
    \<and> (sys_open k RGB_CONTROL_FILE = Opened
         \<and> sys_write k RGB_CONTROL_FILE (pattern @ LF) = Written (length (pattern @ LF))
       \<longrightarrow> handle_speaker_battery_locked k w
           = w\<lparr>written := written w @ [(RGB_CONTROL_FILE, pattern @ LF)]\<rparr>)"
proof -
  have call: "handle_speaker_battery_locked k w = snd (write_str k RGB_CONTROL_FILE pattern w)"
    unfolding assms(2) by (rule handle_speaker_battery_locked_lit [OF assms(1)])
  then show ?thesis
    by (simp add: write_str_accepted)
qed

theorem notification_blink_pattern_witness:
  "handle_speaker_battery_locked accepting_kernel (initial_world\<lparr>g_notification := blinking_green\<rparr>)
     = initial_world\<lparr>g_notification := blinking_green,
         written := [(RGB_CONTROL_FILE, ''ffffff 500 2000 300 300'' @ LF)]\<rparr>
   \<and> handle_speaker_battery_locked accepting_kernel (initial_world\<lparr>g_notification := pure_red\<rparr>)
     = initial_world\<lparr>g_notification := pure_red,
         written := [(RGB_CONTROL_FILE, ''ffffff 0 0 0 0'' @ LF)]\<rparr>"
proof -
  have green: "is_lit (g_notification (initial_world\<lparr>g_notification := blinking_green\<rparr>)) \<noteq> 0"
    by (simp add: blinking_green_simps)
  have red: "is_lit (g_notification (initial_world\<lparr>g_notification := pure_red\<rparr>)) \<noteq> 0"
    by (simp add: is_lit_def pure_red_def)
  have mode: "flashMode pure_red \<noteq> LIGHT_FLASH_TIMED"
    by (simp add: pure_red_def LIGHT_FLASH_TIMED_def LIGHT_FLASH_NONE_def)
  show ?thesis
    using notification_blink_pattern [OF green refl, of accepting_kernel, THEN conjunct2]
      notification_blink_pattern [OF red refl, of accepting_kernel, THEN conjunct2]
    by (simp add: blinking_green_simps mode fmt_d_examples accepting_kernel_simps initial_world_simps)
qed

text \<open>
  C6, as the code has it. The claim takes a battery colour that is non-zero; the code
  asks \<open>is_lit\<close>, which masks the alpha byte. At the battery colour \<open>0xFF000000\<close>, with
  no notification, the colour is non-zero and the control file receives the all-off line.
\<close>

theorem battery_alpha_only_counterexample:
  "is_lit (g_notification (initial_world\<lparr>g_battery := opaque_black\<rparr>)) = 0
   \<and> color (g_battery (initial_world\<lparr>g_battery := opaque_black\<rparr>)) \<noteq> 0
   \<and> written (handle_speaker_battery_locked accepting_kernel (initial_world\<lparr>g_battery := opaque_black\<rparr>))
       = [(RGB_CONTROL_FILE, ''000000 0 0 0 0'' @ LF)]
   \<and> written (handle_speaker_battery_locked accepting_kernel (initial_world\<lparr>g_battery := opaque_black\<rparr>))
       \<noteq> [(RGB_CONTROL_FILE, ''FFFFFF 1 0 0 0'' @ LF)]"
  by (simp add: handle_speaker_battery_locked_def is_lit_def initial_world_def light_off_def
      opaque_black_def write_str_def accepting_kernel_def)

text \<open>
  C6, amended. When the stored notification is unlit, the arbitration routine calls
  \<open>write_str\<close> on the RGB control path with \<open>FFFFFF 1 0 0 0\<close> if the battery snapshot is
  lit (a non-zero bit among the low 24 bits of its colour) and with \<open>000000 0 0 0 0\<close> if
  it is unlit too. When the kernel opens the file and takes the whole buffer, the file
  receives that line and a line feed.
\<close>

theorem battery_fallback:
  assumes "is_lit (g_notification w) = 0"
    and "pattern = (if is_lit (g_battery w) \<noteq> 0 then ''FFFFFF 1 0 0 0'' else ''000000 0 0 0 0'')"
  shows "handle_speaker_battery_locked k w = snd (write_str k RGB_CONTROL_FILE pattern w)
    \<and> (sys_open k RGB_CONTROL_FILE = Opened
         \<and> sys_write k RGB_CONTROL_FILE (pattern @ LF) = Written (length (pattern @ LF))
       \<longrightarrow> handle_speaker_battery_locked k w
           = w\<lparr>written := written w @ [(RGB_CONTROL_FILE, pattern @ LF)]\<rparr>)"
proof -
  have call: "handle_speaker_battery_locked k w = snd (write_str k RGB_CONTROL_FILE pattern w)"
    unfolding assms(2) by (rule handle_speaker_battery_locked_unlit [OF assms(1)])
  then show ?thesis
    by (simp add: write_str_accepted)
qed

theorem battery_fallback_witness:
  "handle_speaker_battery_locked accepting_kernel (initial_world\<lparr>g_battery := opaque_red\<rparr>)
     = initial_world\<lparr>g_battery := opaque_red,
         written := [(RGB_CONTROL_FILE, ''FFFFFF 1 0 0 0'' @ LF)]\<rparr>
   \<and> handle_speaker_battery_locked accepting_kernel initial_world
     = initial_world\<lparr>written := [(RGB_CONTROL_FILE, ''000000 0 0 0 0'' @ LF)]\<rparr>"
proof -
  have unlit: "is_lit (g_notification (initial_world\<lparr>g_battery := opaque_red\<rparr>)) = 0"
    "is_lit (g_notification initial_world) = 0"
    by (simp_all add: initial_world_def light_off_def is_lit_def)
  have batt: "is_lit opaque_red \<noteq> 0" "is_lit (g_battery initial_world) = 0"
    by (simp_all add: initial_world_def light_off_def opaque_red_def is_lit_def)
  show ?thesis
    using battery_fallback [OF unlit(1) refl, of accepting_kernel, THEN conjunct2]
      battery_fallback [OF unlit(2) refl, of accepting_kernel, THEN conjunct2]
    by (simp add: batt accepting_kernel_simps initial_world_simps)
qed

subsection \<open>Failure to open a control file\<close>

text \<open>
  C2, as the code has it. With a kernel whose \<open>open\<close> fails with error code 2, the
  battery and the notification setter both return 0, not \<open>-2\<close>: the arbitration routine
  has no result, and \<open>set_speaker_light_locked\<close> drops what \<open>write_str\<close> returns.
\<close>

theorem setters_ignore_open_failure_counterexample:
  "sys_open refusing_kernel RGB_CONTROL_FILE = Open_failed 2
   \<and> fst (set_light_battery refusing_kernel opaque_red initial_world) = 0
   \<and> fst (set_light_notifications refusing_kernel opaque_red initial_world) = 0
   \<and> (0 :: 32 word) \<noteq> - 2"
  by (simp add: set_light_battery_def set_light_notifications_def refusing_kernel_def Let_def)

text \<open>
  C2, amended. When opening a control file fails with error code \<open>e\<close>, \<open>write_int\<close> and
  \<open>write_str\<close> return \<open>-e\<close>, and the backlight setter passes that value on to its
  caller. The battery and the notification setter return 0 on every input and for every
  answer of the kernel.
\<close>

theorem open_failure_results:
  "(sys_open k path = Open_failed e \<longrightarrow>
       fst (write_int k path i w) = - e \<and> fst (write_str k path v w) = - e)
   \<and> (sys_open k LCD_FILE = Open_failed e \<longrightarrow> fst (set_light_backlight k state w) = - e)
   \<and> fst (set_light_battery k state w) = 0
   \<and> fst (set_light_notifications k state w) = 0"
  by (simp add: write_int_open_failed write_str_open_failed set_light_backlight_def
      set_light_battery_def set_light_notifications_def Let_def)

theorem open_failure_results_witness:
  "sys_open refusing_kernel LCD_FILE = Open_failed 2
   \<and> fst (set_light_backlight refusing_kernel opaque_red initial_world) = - 2
   \<and> fst (write_str refusing_kernel RGB_CONTROL_FILE ''FFFFFF 1 0 0 0'' initial_world) = - 2
   \<and> fst (set_light_battery refusing_kernel opaque_red initial_world) = 0
   \<and> fst (set_light_notifications refusing_kernel opaque_red initial_world) = 0"
  using open_failure_results [of refusing_kernel LCD_FILE 2 0 initial_world "''FFFFFF 1 0 0 0''" opaque_red]
    open_failure_results [of refusing_kernel RGB_CONTROL_FILE 2 0 initial_world "''FFFFFF 1 0 0 0''" opaque_red]
  by (simp add: refusing_kernel_simps)

subsection \<open>Luminance and the backlight\<close>

lemma unat_and_ff: "unat ((x :: 32 word) AND 0xff) = unat x mod 256"
proof -
  have "x AND 0xff = take_bit 8 x"
    by (simp add: take_bit_eq_mask mask_eq_exp_minus_1)
  then show ?thesis
    by (simp add: take_bit_eq_mod unat_mod)
qed

lemma unat_and_ffffff: "unat ((x :: 32 word) AND 0xffffff) = unat x mod 16777216"
proof -
  have "x AND 0xffffff = take_bit 24 x"
    by (simp add: take_bit_eq_mask mask_eq_exp_minus_1)
  then show ?thesis
    by (simp add: take_bit_eq_mod unat_mod)
qed

lemma unat_weighted_sum:
  fixes r g b :: "32 word"
  assumes "unat r < 256" "unat g < 256" "unat b < 256"
  shows "unat (77 * r + 150 * g + 29 * b) = 77 * unat r + 150 * unat g + 29 * unat b"
proof -
  have r: "unat (77 * r) = 77 * unat r"
    using assms(1) by (simp add: unat_mult_lem [THEN iffD1])
  have g: "unat (150 * g) = 150 * unat g"
    using assms(2) by (simp add: unat_mult_lem [THEN iffD1])
  have b: "unat (29 * b) = 29 * unat b"
    using assms(3) by (simp add: unat_mult_lem [THEN iffD1])
  have rg: "unat (77 * r + 150 * g) = 77 * unat r + 150 * unat g"
    using assms r g by (simp add: unat_add_lem [THEN iffD1])
  show ?thesis
    using assms rg b by (simp add: unat_add_lem [THEN iffD1])
qed

lemma channel_of_masked:
  fixes n :: nat
  shows "n mod 16777216 div 65536 mod 256 = n div 65536 mod 256"
    and "n mod 16777216 div 256 mod 256 = n div 256 mod 256"
    and "n mod 16777216 mod 256 = n mod 256"
proof -
  have "take_bit 8 (drop_bit 16 (take_bit 24 n)) = take_bit 8 (drop_bit 16 n)"
    by (simp add: drop_bit_take_bit)
  then show "n mod 16777216 div 65536 mod 256 = n div 65536 mod 256"
    by (simp add: take_bit_eq_mod drop_bit_eq_div)
  have "take_bit 8 (drop_bit 8 (take_bit 24 n)) = take_bit 8 (drop_bit 8 n)"
    by (simp add: drop_bit_take_bit)
  then show "n mod 16777216 div 256 mod 256 = n div 256 mod 256"
    by (simp add: take_bit_eq_mod drop_bit_eq_div)
  have "(256::nat) dvd 16777216"
    by simp
  then show "n mod 16777216 mod 256 = n mod 256"
    by (rule mod_mod_cancel)
qed

lemma unat_rgb_to_brightness:
  "unat (rgb_to_brightness state) =
     (77 * (unat (color state) div 65536 mod 256)
      + 150 * (unat (color state) div 256 mod 256)
      + 29 * (unat (color state) mod 256)) div 256"
proof -
  define c where "c = color state AND 0x00ffffff"
  have c: "unat c = unat (color state) mod 16777216"
    by (simp add: c_def unat_and_ffffff)
  have r: "unat (drop_bit 16 c AND 0xff) = unat (color state) div 65536 mod 256"
    by (simp add: unat_and_ff drop_bit_eq_div unat_div c channel_of_masked)
  have g: "unat (drop_bit 8 c AND 0xff) = unat (color state) div 256 mod 256"
    by (simp add: unat_and_ff drop_bit_eq_div unat_div c channel_of_masked)
  have b: "unat (c AND 0xff) = unat (color state) mod 256"
    by (simp only: unat_and_ff c channel_of_masked)
  have "rgb_to_brightness state =
      drop_bit 8 (77 * (drop_bit 16 c AND 0xff) + 150 * (drop_bit 8 c AND 0xff) + 29 * (c AND 0xff))"
    by (simp only: rgb_to_brightness_def c_def Let_def)
  then have "unat (rgb_to_brightness state) =
      unat (77 * (drop_bit 16 c AND 0xff) + 150 * (drop_bit 8 c AND 0xff) + 29 * (c AND 0xff)) div 256"
    by (simp add: drop_bit_eq_div unat_div)
  also have "unat (77 * (drop_bit 16 c AND 0xff) + 150 * (drop_bit 8 c AND 0xff) + 29 * (c AND 0xff))
      = 77 * unat (drop_bit 16 c AND 0xff) + 150 * unat (drop_bit 8 c AND 0xff) + 29 * unat (c AND 0xff)"
    by (rule unat_weighted_sum) (simp_all add: unat_and_ff)
  finally show ?thesis
    by (simp only: r g b)
qed

lemma rgb_to_brightness_le: "unat (rgb_to_brightness state) \<le> 255"
proof -
  have "unat (color state) div 65536 mod 256 \<le> 255" "unat (color state) div 256 mod 256 \<le> 255"
    "unat (color state) mod 256 \<le> 255"
    by simp_all
  then have "77 * (unat (color state) div 65536 mod 256)
      + 150 * (unat (color state) div 256 mod 256)
      + 29 * (unat (color state) mod 256) \<le> 65280"
    by linarith
  then have "(77 * (unat (color state) div 65536 mod 256)
      + 150 * (unat (color state) div 256 mod 256)
      + 29 * (unat (color state) mod 256)) div 256 \<le> 65280 div 256"
    by (rule div_le_mono)
  then show ?thesis
    by (simp add: unat_rgb_to_brightness)
qed

lemma rgb_to_brightness_extremes:
  "color state = 0xFFFFFFFF \<Longrightarrow> rgb_to_brightness state = 255"
  "color state = 0x00000000 \<Longrightarrow> rgb_to_brightness state = 0"
  by (simp_all add: rgb_to_brightness_def)

text \<open>
  C3. The brightness is \<open>(77 * R + 150 * G + 29 * B) div 256\<close> over the red, green and blue
  bytes of the colour, computed without wrap-around; the backlight setter hands exactly
  this value to \<open>write_int\<close> on the backlight path, where it is printed as an unsigned
  decimal; when the kernel opens the file and takes the whole buffer, the file receives
  the decimal and a line feed. Colour \<open>0xFFFFFFFF\<close> gives 255 and colour 0 gives 0.
\<close>

theorem backlight_brightness:
  "unat (rgb_to_brightness state) =
     (77 * (unat (color state) div 65536 mod 256)
      + 150 * (unat (color state) div 256 mod 256)
      + 29 * (unat (color state) mod 256)) div 256
   \<and> set_light_backlight k state w = write_int k LCD_FILE (rgb_to_brightness state) w
   \<and> fmt_d (rgb_to_brightness state) = dec_nat (unat (rgb_to_brightness state))
   \<and> (sys_open k LCD_FILE = Opened
        \<and> sys_write k LCD_FILE (fmt_d (rgb_to_brightness state) @ LF)
            = Written (length (fmt_d (rgb_to_brightness state) @ LF))
      \<longrightarrow> set_light_backlight k state w
          = (0, w\<lparr>written := written w @ [(LCD_FILE, dec_nat (unat (rgb_to_brightness state)) @ LF)]\<rparr>))
   \<and> (color state = 0xFFFFFFFF \<longrightarrow> rgb_to_brightness state = 255)
   \<and> (color state = 0x00000000 \<longrightarrow> rgb_to_brightness state = 0)"
proof -
  have call: "set_light_backlight k state w = write_int k LCD_FILE (rgb_to_brightness state) w"
    by (simp add: set_light_backlight_def)
  have line: "fmt_d (rgb_to_brightness state) = dec_nat (unat (rgb_to_brightness state))"
    by (rule fmt_d_small [OF rgb_to_brightness_le])
  show ?thesis
    using unat_rgb_to_brightness [of state] call line rgb_to_brightness_extremes(1,2) [of state]
    by (simp add: write_int_accepted)
qed

lemma opaque_white_simps:
  "color (light_off\<lparr>color := 0xFFFFFFFF\<rparr>) = 0xFFFFFFFF"
  "color light_off = 0"
  by (simp_all add: light_off_def)

theorem backlight_brightness_witness:
  "set_light_backlight accepting_kernel (light_off\<lparr>color := 0xFFFFFFFF\<rparr>) initial_world
      = (0, initial_world\<lparr>written := [(LCD_FILE, ''255'' @ LF)]\<rparr>)
   \<and> set_light_backlight accepting_kernel light_off initial_world
      = (0, initial_world\<lparr>written := [(LCD_FILE, ''0'' @ LF)]\<rparr>)"
proof -
  note white = backlight_brightness [of "light_off\<lparr>color := 0xFFFFFFFF\<rparr>" accepting_kernel initial_world]
  note off = backlight_brightness [of light_off accepting_kernel initial_world]
  have b255: "rgb_to_brightness (light_off\<lparr>color := 0xFFFFFFFF\<rparr>) = 255"
    using white [THEN conjunct2, THEN conjunct2, THEN conjunct2, THEN conjunct2, THEN conjunct1]
    by (simp add: opaque_white_simps)
  have b0: "rgb_to_brightness light_off = 0"
    using off [THEN conjunct2, THEN conjunct2, THEN conjunct2, THEN conjunct2, THEN conjunct2]
    by (simp add: opaque_white_simps)
  have dec: "dec_nat 255 = ''255''" "dec_nat 0 = ''0''"
    by (simp_all add: dec_nat.simps digit_char_def)
  show ?thesis
    using white [THEN conjunct2, THEN conjunct2, THEN conjunct2, THEN conjunct1]
      off [THEN conjunct2, THEN conjunct2, THEN conjunct2, THEN conjunct1]
    by (simp add: b255 b0 dec accepting_kernel_simps initial_world_simps)
qed

text \<open>
  C4, as the code has it. For pure red the sum is \<open>77 * 255 = 19635\<close>, and
  \<open>19635 div 256\<close> is 76, not 77.
\<close>

theorem pure_red_brightness_counterexample:
  "color pure_red = 0x00FF0000 \<and> rgb_to_brightness pure_red \<noteq> 77"
  by (simp add: rgb_to_brightness_def pure_red_def)

text \<open>
  C4, amended. The luminance conversion applied to colour \<open>0x00FF0000\<close> (pure red)
  yields brightness 76.
\<close>

theorem pure_red_brightness:
  "color state = 0x00FF0000 \<Longrightarrow> rgb_to_brightness state = 76"
  by (simp add: rgb_to_brightness_def)

theorem pure_red_brightness_witness:
  "color pure_red = 0x00FF0000 \<and> rgb_to_brightness pure_red = 76"
proof -
  have red: "color pure_red = 0x00FF0000"
    by (simp add: pure_red_def)
  from pure_red_brightness [OF red] red show ?thesis
    by simp
qed

subsection \<open>Opening a device\<close>

text \<open>
  C7, as the code has it. The code hands the result of \<open>malloc\<close> to \<open>memset\<close> without
  a check. With the recognised name \<open>battery\<close> and an allocation that fails, the call
  faults: it neither returns success nor stores a device.
\<close>

theorem open_lights_allocation_counterexample:
  "LIGHT_ID_BATTERY = ''battery''
   \<and> open_lights False 7 LIGHT_ID_BATTERY None initial_world = None"
  by (simp add: open_lights_def LIGHT_ID_BACKLIGHT_def LIGHT_ID_BATTERY_def)

text \<open>
  C7, amended. For every name other than the three recognised ones, \<open>open_lights\<close>
  returns \<open>-EINVAL\<close> and leaves the caller's device slot and the state as they were,
  whether or not an allocation would succeed. For each recognised name, when the
  allocation of the device succeeds, it returns 0 and stores a device whose
  \<open>set_light\<close> points to the matching setter; a call through that pointer is a call of
  that setter.
\<close>

theorem open_lights_dispatch:
  "(name \<noteq> LIGHT_ID_BACKLIGHT \<and> name \<noteq> LIGHT_ID_BATTERY \<and> name \<noteq> LIGHT_ID_NOTIFICATIONS
      \<longrightarrow> open_lights malloc_ok module name device w = Some (- EINVAL, device, w))
   \<and> (\<exists>dev. open_lights True module LIGHT_ID_BACKLIGHT device w = Some (0, Some dev, w\<lparr>g_init := True\<rparr>)
          \<and> set_light dev = Some Set_light_backlight)
   \<and> (\<exists>dev. open_lights True module LIGHT_ID_BATTERY device w = Some (0, Some dev, w\<lparr>g_init := True\<rparr>)
          \<and> set_light dev = Some Set_light_battery)
   \<and> (\<exists>dev. open_lights True module LIGHT_ID_NOTIFICATIONS device w = Some (0, Some dev, w\<lparr>g_init := True\<rparr>)
          \<and> set_light dev = Some Set_light_notifications)
   \<and> call_set_light Set_light_backlight k state w = Some (set_light_backlight k state w)
   \<and> call_set_light Set_light_battery k state w = Some (set_light_battery k state w)
   \<and> call_set_light Set_light_notifications k state w = Some (set_light_notifications k state w)"
proof -
  have names: "LIGHT_ID_BACKLIGHT \<noteq> LIGHT_ID_BATTERY" "LIGHT_ID_BACKLIGHT \<noteq> LIGHT_ID_NOTIFICATIONS"
    "LIGHT_ID_BATTERY \<noteq> LIGHT_ID_NOTIFICATIONS"
    by (simp_all add: LIGHT_ID_BACKLIGHT_def LIGHT_ID_BATTERY_def LIGHT_ID_NOTIFICATIONS_def)
  have unknown: "name \<noteq> LIGHT_ID_BACKLIGHT \<and> name \<noteq> LIGHT_ID_BATTERY \<and> name \<noteq> LIGHT_ID_NOTIFICATIONS
      \<longrightarrow> open_lights malloc_ok module name device w = Some (- EINVAL, device, w)"
    by (auto simp add: open_lights_def)
  have backlight: "\<exists>dev. open_lights True module LIGHT_ID_BACKLIGHT device w = Some (0, Some dev, w\<lparr>g_init := True\<rparr>)
          \<and> set_light dev = Some Set_light_backlight"
    by (simp add: open_lights_def Let_def)
  have battery: "\<exists>dev. open_lights True module LIGHT_ID_BATTERY device w = Some (0, Some dev, w\<lparr>g_init := True\<rparr>)
          \<and> set_light dev = Some Set_light_battery"
    using names by (simp add: open_lights_def Let_def)
  have notifications: "\<exists>dev. open_lights True module LIGHT_ID_NOTIFICATIONS device w = Some (0, Some dev, w\<lparr>g_init := True\<rparr>)
          \<and> set_light dev = Some Set_light_notifications"
    using names by (simp add: open_lights_def Let_def)
  have calls: "call_set_light Set_light_backlight k state w = Some (set_light_backlight k state w)"
    "call_set_light Set_light_battery k state w = Some (set_light_battery k state w)"
    "call_set_light Set_light_notifications k state w = Some (set_light_notifications k state w)"
    by (simp_all add: call_set_light_def)
  from unknown backlight battery notifications calls show ?thesis
    by blast
qed

theorem open_lights_dispatch_witness:
  "''buttons'' \<noteq> LIGHT_ID_BACKLIGHT \<and> ''buttons'' \<noteq> LIGHT_ID_BATTERY \<and> ''buttons'' \<noteq> LIGHT_ID_NOTIFICATIONS
   \<and> open_lights True 0 ''buttons'' None initial_world = Some (- EINVAL, None, initial_world)
   \<and> open_lights True 7 ''battery'' None initial_world
       = Some (0, Some \<lparr>common_tag = HARDWARE_DEVICE_TAG, common_version = 0, common_module = 7,
                         common_close = Some Close_lights, set_light = Some Set_light_battery\<rparr>,
               initial_world\<lparr>g_init := True\<rparr>)"
proof -
  have battery: "open_lights True 7 ''battery'' None initial_world
       = Some (0, Some \<lparr>common_tag = HARDWARE_DEVICE_TAG, common_version = 0, common_module = 7,
                         common_close = Some Close_lights, set_light = Some Set_light_battery\<rparr>,
               initial_world\<lparr>g_init := True\<rparr>)"
    by (simp add: open_lights_def LIGHT_ID_BACKLIGHT_def LIGHT_ID_BATTERY_def)
  have other: "''buttons'' \<noteq> LIGHT_ID_BACKLIGHT \<and> ''buttons'' \<noteq> LIGHT_ID_BATTERY
      \<and> ''buttons'' \<noteq> LIGHT_ID_NOTIFICATIONS"
    by (simp add: LIGHT_ID_BACKLIGHT_def LIGHT_ID_BATTERY_def LIGHT_ID_NOTIFICATIONS_def)
  from open_lights_dispatch [of "''buttons''" True 0 None initial_world, THEN conjunct1] other battery
  show ?thesis
    by simp
qed

lemma open_lights_allocation_failure:
  assumes "name = LIGHT_ID_BACKLIGHT \<or> name = LIGHT_ID_BATTERY \<or> name = LIGHT_ID_NOTIFICATIONS"
  shows "open_lights False module name device w = None"
  using assms by (auto simp add: open_lights_def)


subsection \<open>Repeating a request\<close>

lemma write_str_snapshots:
  "g_notification (snd (write_str k path v w)) = g_notification w"
  "g_battery (snd (write_str k path v w)) = g_battery w"
  by (simp_all add: write_str_def Let_def split: open_result.split write_result.split)

lemma write_str_repeated:
  "\<exists>ws. written (snd (write_str k path v w)) = written w @ ws
     \<and> snd (write_str k path v (snd (write_str k path v w)))
         = (snd (write_str k path v w))\<lparr>written := written (snd (write_str k path v w)) @ ws\<rparr>"
proof (cases "sys_open k path")
  case Opened
  show ?thesis
  proof (cases "sys_write k path (v @ LF)")
    case (Written amt)
    with Opened show ?thesis
      by (simp add: write_str_def)
  next
    case (Write_failed e)
    with Opened show ?thesis
      by (simp add: write_str_def)
  qed
next
  case (Open_failed e)
  then show ?thesis
    by (simp add: write_str_def Let_def)
qed

lemma handle_speaker_battery_locked_call:
  "\<exists>pattern. \<forall>w. g_notification w = n \<and> g_battery w = b
      \<longrightarrow> handle_speaker_battery_locked k w = snd (write_str k RGB_CONTROL_FILE pattern w)"
proof (cases "is_lit n = 0")
  case True
  then have "\<forall>w. g_notification w = n \<and> g_battery w = b
      \<longrightarrow> handle_speaker_battery_locked k w
          = snd (write_str k RGB_CONTROL_FILE
                  (if is_lit b \<noteq> 0 then ''FFFFFF 1 0 0 0'' else ''000000 0 0 0 0'') w)"
    by (auto simp add: handle_speaker_battery_locked_unlit)
  then show ?thesis
    by blast
next
  case False
  then have "\<forall>w. g_notification w = n \<and> g_battery w = b
      \<longrightarrow> handle_speaker_battery_locked k w
          = snd (write_str k RGB_CONTROL_FILE
                  (if flashMode n = LIGHT_FLASH_TIMED
                   then ''ffffff '' @ fmt_d (flashOnMS n) @ '' '' @ fmt_d (flashOffMS n) @ '' 300 300''
                   else ''ffffff 0 0 0 0'') w)"
    by (auto simp add: handle_speaker_battery_locked_lit)
  then show ?thesis
    by blast
qed

text \<open>
  C8. Two calls of the battery setter in succession with the same state and the same
  kernel: both return 0, the notification snapshot is the same before the second call as
  before the first, and the second call adds to the control file exactly the bytes the
  first one added; it changes nothing else.
\<close>

theorem set_light_battery_idempotent:
  assumes "w1 = snd (set_light_battery k state w)"
    and "w2 = snd (set_light_battery k state w1)"
  shows "fst (set_light_battery k state w) = 0 \<and> fst (set_light_battery k state w1) = 0
    \<and> g_notification w1 = g_notification w
    \<and> (\<exists>ws. written w1 = written w @ ws \<and> w2 = w1\<lparr>written := written w1 @ ws\<rparr>)"
proof -
  let ?w0 = "w\<lparr>g_battery := state\<rparr>"
  obtain pattern where call: "\<And>w'. g_notification w' = g_notification w \<Longrightarrow> g_battery w' = state
      \<Longrightarrow> handle_speaker_battery_locked k w' = snd (write_str k RGB_CONTROL_FILE pattern w')"
    using handle_speaker_battery_locked_call [of "g_notification w" state k] by blast
  have w1: "w1 = snd (write_str k RGB_CONTROL_FILE pattern ?w0)"
    using call [of ?w0] by (simp add: assms(1) set_light_battery_def)
  then have snapshots: "g_notification w1 = g_notification w" "g_battery w1 = state"
    by (simp_all add: write_str_snapshots)
  then have same: "w1\<lparr>g_battery := state\<rparr> = w1"
    by simp
  have w2: "w2 = snd (write_str k RGB_CONTROL_FILE pattern w1)"
    using call [OF snapshots] by (simp add: assms(2) set_light_battery_def same)
  from write_str_repeated [of k RGB_CONTROL_FILE pattern ?w0]
  have "\<exists>ws. written w1 = written w @ ws \<and> w2 = w1\<lparr>written := written w1 @ ws\<rparr>"
    unfolding w2 w1 by simp
  then show ?thesis
    using snapshots by (simp add: set_light_battery_def)
qed


theorem set_light_battery_idempotent_witness:
  "snd (set_light_battery accepting_kernel opaque_red initial_world)
     = initial_world\<lparr>g_battery := opaque_red, written := [(RGB_CONTROL_FILE, ''FFFFFF 1 0 0 0'' @ LF)]\<rparr>
   \<and> snd (set_light_battery accepting_kernel opaque_red
           (snd (set_light_battery accepting_kernel opaque_red initial_world)))
     = initial_world\<lparr>g_battery := opaque_red,
         written := [(RGB_CONTROL_FILE, ''FFFFFF 1 0 0 0'' @ LF), (RGB_CONTROL_FILE, ''FFFFFF 1 0 0 0'' @ LF)]\<rparr>"
proof -
  let ?w1 = "snd (set_light_battery accepting_kernel opaque_red initial_world)"
  let ?w2 = "snd (set_light_battery accepting_kernel opaque_red ?w1)"
  have unlit: "is_lit (g_notification (initial_world\<lparr>g_battery := opaque_red\<rparr>)) = 0"
    by (simp add: initial_world_simps)
  have red: "is_lit opaque_red \<noteq> 0"
    by (simp add: is_lit_def opaque_red_def)
  have first: "?w1 = initial_world\<lparr>g_battery := opaque_red,
      written := [(RGB_CONTROL_FILE, ''FFFFFF 1 0 0 0'' @ LF)]\<rparr>"
    by (simp add: set_light_battery_def handle_speaker_battery_locked_unlit [OF unlit] red
        write_str_accepted accepting_kernel_simps initial_world_simps)
  from set_light_battery_idempotent [OF refl refl, of accepting_kernel opaque_red initial_world]
  obtain ws where ws: "written ?w1 = written initial_world @ ws"
    and second: "?w2 = ?w1\<lparr>written := written ?w1 @ ws\<rparr>"
    by blast
  from ws have "ws = [(RGB_CONTROL_FILE, ''FFFFFF 1 0 0 0'' @ LF)]"
    by (simp add: first initial_world_simps)
  with second have "?w2 = ?w1\<lparr>written := written ?w1 @ [(RGB_CONTROL_FILE, ''FFFFFF 1 0 0 0'' @ LF)]\<rparr>"
    by simp
  then have "?w2 = initial_world\<lparr>g_battery := opaque_red,
      written := [(RGB_CONTROL_FILE, ''FFFFFF 1 0 0 0'' @ LF), (RGB_CONTROL_FILE, ''FFFFFF 1 0 0 0'' @ LF)]\<rparr>"
    by (simp add: first)
  with first show ?thesis
    by simp
qed

subsection \<open>The alpha byte\<close>

lemma alpha_is_lit:
  assumes "color s AND 0x00ffffff = color s' AND 0x00ffffff"
  shows "is_lit s = is_lit s'"
  using assms by (simp add: is_lit_def)

lemma alpha_rgb_to_brightness:
  assumes "color s AND 0x00ffffff = color s' AND 0x00ffffff"
  shows "rgb_to_brightness s = rgb_to_brightness s'"
  using assms by (simp add: rgb_to_brightness_def)

lemma alpha_battery:
  assumes "is_lit b = is_lit b'"
  shows "(handle_speaker_battery_locked k (w\<lparr>g_battery := b\<rparr>))\<lparr>g_battery := b'\<rparr>
      = handle_speaker_battery_locked k (w\<lparr>g_battery := b'\<rparr>)"
proof (cases "is_lit (g_notification w) = 0")
  case True
  then have "is_lit (g_notification (w\<lparr>g_battery := b\<rparr>)) = 0"
    "is_lit (g_notification (w\<lparr>g_battery := b'\<rparr>)) = 0"
    by simp_all
  then show ?thesis
    using assms by (simp add: handle_speaker_battery_locked_unlit write_str_store)
next
  case False
  then have "is_lit (g_notification (w\<lparr>g_battery := b\<rparr>)) \<noteq> 0"
    "is_lit (g_notification (w\<lparr>g_battery := b'\<rparr>)) \<noteq> 0"
    by simp_all
  then show ?thesis
    by (simp add: handle_speaker_battery_locked_lit write_str_store)
qed

lemma alpha_notification:
  assumes "is_lit n = is_lit n'"
    and "flashMode n = flashMode n'" "flashOnMS n = flashOnMS n'" "flashOffMS n = flashOffMS n'"
  shows "(handle_speaker_battery_locked k (w\<lparr>g_notification := n\<rparr>))\<lparr>g_notification := n'\<rparr>
      = handle_speaker_battery_locked k (w\<lparr>g_notification := n'\<rparr>)"
proof (cases "is_lit n = 0")
  case True
  then have "is_lit (g_notification (w\<lparr>g_notification := n\<rparr>)) = 0"
    "is_lit (g_notification (w\<lparr>g_notification := n'\<rparr>)) = 0"
    using assms(1) by simp_all
  then show ?thesis
    by (simp add: handle_speaker_battery_locked_unlit write_str_store)
next
  case False
  then have "is_lit (g_notification (w\<lparr>g_notification := n\<rparr>)) \<noteq> 0"
    "is_lit (g_notification (w\<lparr>g_notification := n'\<rparr>)) \<noteq> 0"
    using assms(1) by simp_all
  then show ?thesis
    using assms(2-4) by (simp add: handle_speaker_battery_locked_lit write_str_store)
qed

text \<open>
  C9. For two light states that agree on the low 24 bits of the colour and on the flash
  fields, \<open>is_lit\<close> and the brightness are equal, the backlight setter has the same
  result and leaves the same state, and the battery and the notification setter return
  the same value, make the control file receive the same bytes and leave the same state
  apart from the snapshot they store.
\<close>

theorem alpha_channel_ignored:
  assumes "color s AND 0x00ffffff = color s' AND 0x00ffffff"
    and "flashMode s = flashMode s'" and "flashOnMS s = flashOnMS s'" and "flashOffMS s = flashOffMS s'"
  shows "is_lit s = is_lit s'
    \<and> rgb_to_brightness s = rgb_to_brightness s'
    \<and> set_light_backlight k s w = set_light_backlight k s' w
    \<and> fst (set_light_battery k s w) = fst (set_light_battery k s' w)
    \<and> (snd (set_light_battery k s w))\<lparr>g_battery := s'\<rparr> = snd (set_light_battery k s' w)
    \<and> written (snd (set_light_battery k s w)) = written (snd (set_light_battery k s' w))
    \<and> fst (set_light_notifications k s w) = fst (set_light_notifications k s' w)
    \<and> (snd (set_light_notifications k s w))\<lparr>g_notification := s'\<rparr> = snd (set_light_notifications k s' w)
    \<and> written (snd (set_light_notifications k s w)) = written (snd (set_light_notifications k s' w))"
proof -
  note lit = alpha_is_lit [OF assms(1)]
  note brightness = alpha_rgb_to_brightness [OF assms(1)]
  have backlight: "set_light_backlight k s w = set_light_backlight k s' w"
    by (simp add: set_light_backlight_def brightness)
  have battery: "(snd (set_light_battery k s w))\<lparr>g_battery := s'\<rparr> = snd (set_light_battery k s' w)"
    by (simp add: set_light_battery_def alpha_battery [OF lit])
  have notifications:
    "(snd (set_light_notifications k s w))\<lparr>g_notification := s'\<rparr> = snd (set_light_notifications k s' w)"
    by (simp add: set_light_notifications_def alpha_notification [OF lit assms(2-4)])
  have battery_bytes: "written (snd (set_light_battery k s w)) = written (snd (set_light_battery k s' w))"
    using arg_cong [OF battery, of written] by simp
  have notification_bytes:
    "written (snd (set_light_notifications k s w)) = written (snd (set_light_notifications k s' w))"
    using arg_cong [OF notifications, of written] by simp
  have results: "fst (set_light_battery k s w) = fst (set_light_battery k s' w)"
    "fst (set_light_notifications k s w) = fst (set_light_notifications k s' w)"
    by (simp_all add: set_light_battery_def set_light_notifications_def)
  from lit brightness backlight battery notifications battery_bytes notification_bytes results
  show ?thesis
    by (intro conjI)
qed


theorem alpha_channel_ignored_witness:
  "color opaque_red AND 0x00ffffff = color pure_red AND 0x00ffffff
   \<and> color opaque_red \<noteq> color pure_red
   \<and> is_lit opaque_red = is_lit pure_red
   \<and> rgb_to_brightness opaque_red = rgb_to_brightness pure_red
   \<and> written (snd (set_light_battery accepting_kernel opaque_red initial_world))
      = written (snd (set_light_battery accepting_kernel pure_red initial_world))
   \<and> written (snd (set_light_notifications accepting_kernel opaque_red initial_world))
      = written (snd (set_light_notifications accepting_kernel pure_red initial_world))"
proof -
  have rgb: "color opaque_red AND 0x00ffffff = color pure_red AND 0x00ffffff"
    by (simp add: opaque_red_def pure_red_def)
  have rest: "flashMode opaque_red = flashMode pure_red" "flashOnMS opaque_red = flashOnMS pure_red"
    "flashOffMS opaque_red = flashOffMS pure_red"
    by (simp_all add: opaque_red_def pure_red_def)
  have alpha: "color opaque_red \<noteq> color pure_red"
    by (simp add: opaque_red_def pure_red_def)
  from alpha_channel_ignored [OF rgb rest, of accepting_kernel initial_world] rgb alpha
  show ?thesis
    by simp
qed

end
